theory Spec2Isabelle
  imports Main
begin

section \<open>Values, dictionaries, exceptions\<close>

text \<open>
  The module \<^verbatim>\<open>catalyst/utils/config.py\<close> works on Python values read from JSON or YAML
  documents and from the command line. A dictionary is kept as an association list in
  insertion order, as Python's \<^verbatim>\<open>dict\<close> and \<^verbatim>\<open>OrderedDict\<close> iterate. Keys are strings (what
  JSON allows). A float is kept exactly, as mantissa and binary exponent: \<open>VFloat m e\<close>
  stands for \<open>m * 2 ^ e\<close>. Text and bytes are both byte strings (text in its UTF-8
  encoding), so decoding bytes only changes the constructor.
\<close>

datatype pyval =
    VNone
  | VBool bool
  | VInt int
  | VFloat int int
  | VStr string
  | VBytes string
  | VList "pyval list"
  | VDict "(string \<times> pyval) list"

type_synonym dict = "(string \<times> pyval) list"

text \<open>
  The exceptions the module can let escape. \<open>ValueError\<close> carries Python's message.
  \<open>PyException\<close> is the bare \<^verbatim>\<open>Exception(msg)\<close> raised by the module itself. \<open>Raised\<close> is an
  exception raised inside external code (\<^verbatim>\<open>eval\<close>, \<^verbatim>\<open>json\<close>, \<^verbatim>\<open>yaml\<close>, the serialisers),
  named by its class.
\<close>

datatype exn =
    ValueError string
  | TypeError
  | AttributeError
  | FileNotFoundError
  | FileExistsError
  | NotADirectoryError
  | IsADirectoryError
  | PermissionError
  | PyException string
  | Raised string

fun dict_get :: "dict \<Rightarrow> string \<Rightarrow> pyval option" where
  "dict_get [] k = None"
| "dict_get ((k', v) # d) k = (if k' = k then Some v else dict_get d k)"

text \<open>\<^verbatim>\<open>d[k] = v\<close>: an existing key keeps its place, a new key goes to the end.\<close>

fun dict_set :: "string \<Rightarrow> pyval \<Rightarrow> dict \<Rightarrow> dict" where
  "dict_set k v [] = [(k, v)]"
| "dict_set k v ((k', v') # d) = (if k' = k then (k, v) # d else (k', v') # dict_set k v d)"

definition keys :: "dict \<Rightarrow> string list" where
  "keys d = map fst d"

section \<open>String operations of Python used by the module\<close>

text \<open>\<^verbatim>\<open>s.split(c)\<close> for a one-character separator: never empty, \<^verbatim>\<open>"".split("=") == [""]\<close>.\<close>

fun split_on :: "char \<Rightarrow> string \<Rightarrow> string list" where
  "split_on c [] = [[]]"
| "split_on c (x # xs) =
     (if x = c then [] # split_on c xs
      else (case split_on c xs of
              [] \<Rightarrow> [[x]]
            | w # ws \<Rightarrow> (x # w) # ws))"

text \<open>\<^verbatim>\<open>s.rsplit(c, 1)\<close>: split once, at the last occurrence; one element when there is none.\<close>

definition rsplit1 :: "char \<Rightarrow> string \<Rightarrow> string list" where
  "rsplit1 c s =
     (if c \<in> set s
      then [rev (tl (dropWhile (\<lambda>x. x \<noteq> c) (rev s))), rev (takeWhile (\<lambda>x. x \<noteq> c) (rev s))]
      else [s])"

definition lstrip :: "char \<Rightarrow> string \<Rightarrow> string" where
  "lstrip c s = dropWhile (\<lambda>x. x = c) s"

definition strip :: "char \<Rightarrow> string \<Rightarrow> string" where
  "strip c s = rev (dropWhile (\<lambda>x. x = c) (rev (dropWhile (\<lambda>x. x = c) s)))"

text \<open>\<^verbatim>\<open>s.lower()\<close> on ASCII letters; other bytes are left alone.\<close>

definition lower_char :: "char \<Rightarrow> char" where
  "lower_char c =
     (case map_of (zip ''ABCDEFGHIJKLMNOPQRSTUVWXYZ'' ''abcdefghijklmnopqrstuvwxyz'') c of
        Some l \<Rightarrow> l
      | None \<Rightarrow> c)"

definition lower :: "string \<Rightarrow> string" where
  "lower s = map lower_char s"

text \<open>\<^verbatim>\<open>s.endswith(suf)\<close>.\<close>

definition endswith :: "string \<Rightarrow> string \<Rightarrow> bool" where
  "endswith s suf = (take (length suf) (rev s) = rev suf)"

text \<open>
  The tuple assignment \<^verbatim>\<open>a, b = parts\<close>: anything but two parts is a \<^verbatim>\<open>ValueError\<close>, with
  Python's own message.
\<close>

fun unpack2 :: "string list \<Rightarrow> exn + (string \<times> string)" where
  "unpack2 [a, b] = Inr (a, b)"
| "unpack2 [] = Inl (ValueError ''not enough values to unpack (expected 2, got 0)'')"
| "unpack2 [a] = Inl (ValueError ''not enough values to unpack (expected 2, got 1)'')"
| "unpack2 (a # b # c # r) = Inl (ValueError ''too many values to unpack (expected 2)'')"

section \<open>The argument record and the store\<close>

text \<open>
  \<^verbatim>\<open>args\<close> is an \<^verbatim>\<open>argparse.Namespace\<close>: an object with a dictionary of attributes. Objects
  live in a store and are named by address, since the module both copies and mutates the
  record. \<open>fresh\<close> is the next unused address.
\<close>

type_synonym namespace = "(string \<times> pyval) list"

type_synonym addr = nat

record store =
  objs :: "addr \<Rightarrow> namespace"
  fresh :: addr

definition getattr :: "store \<Rightarrow> addr \<Rightarrow> string \<Rightarrow> pyval option" where
  "getattr h a k = dict_get (objs h a) k"

definition setattr :: "store \<Rightarrow> addr \<Rightarrow> string \<Rightarrow> pyval \<Rightarrow> store" where
  "setattr h a k v = h\<lparr>objs := (objs h)(a := dict_set k v (objs h a))\<rparr>"

text \<open>\<^verbatim>\<open>copy.deepcopy(args)\<close>: a new object with the same attribute values.\<close>

definition deepcopy :: "store \<Rightarrow> addr \<Rightarrow> addr \<times> store" where
  "deepcopy h a = (fresh h, h\<lparr>objs := (objs h)(fresh h := objs h a), fresh := Suc (fresh h)\<rparr>)"

text \<open>
  \<^verbatim>\<open>args._get_kwargs()\<close> is \<^verbatim>\<open>sorted(self.__dict__.items())\<close> (Python 3.6 to 3.8): the
  attributes in the order of their names, compared byte by byte.
\<close>

fun str_less :: "string \<Rightarrow> string \<Rightarrow> bool" where
  "str_less [] [] = False"
| "str_less [] (y # ys) = True"
| "str_less (x # xs) [] = False"
| "str_less (x # xs) (y # ys) =
     ((of_char x :: nat) < of_char y \<or> (x = y \<and> str_less xs ys))"

fun insert_kw :: "string \<times> pyval \<Rightarrow> (string \<times> pyval) list \<Rightarrow> (string \<times> pyval) list" where
  "insert_kw p [] = [p]"
| "insert_kw p (q # qs) = (if str_less (fst q) (fst p) then q # insert_kw p qs else p # q # qs)"

definition get_kwargs :: "namespace \<Rightarrow> (string \<times> pyval) list" where
  "get_kwargs ns = foldr insert_kw ns []"

section \<open>parse_config_args\<close>

text \<open>
  \<^verbatim>\<open>eval\<close> is Python's, not the module's: it is a parameter. The text runs in the frame of
  \<^verbatim>\<open>parse_config_args\<close> with the globals of the module (\<^verbatim>\<open>sys\<close> among them), so what it
  gives may depend on the tree and on any object of the store, and it may change them: the
  tree, the record, and through \<^verbatim>\<open>sys._getframe\<close> the objects of the callers. The parameter
  takes the text, the tree and the store, and gives the value returned or the exception
  raised, together with the tree and the store as the evaluation left them.
\<close>

type_synonym evaluator = "string \<Rightarrow> dict \<Rightarrow> store \<Rightarrow> (exn + pyval) \<times> dict \<times> store"

text \<open>
  Lines 165 to 172: walk \<^verbatim>\<open>arg_names[:-1]\<close> down the tree, creating an empty dictionary
  where a name is absent (the inner \<open>case\<close>: an absent name reads as the dictionary just
  created), then assign at \<^verbatim>\<open>arg_names[-1]\<close>. Membership test, indexing or item assignment
  by a string on a value that is not a dictionary is a \<^verbatim>\<open>TypeError\<close>.
\<close>

fun navigate :: "string list \<Rightarrow> string \<Rightarrow> pyval \<Rightarrow> dict \<Rightarrow> exn + dict" where
  "navigate [] lastname v d = Inr (dict_set lastname v d)"
| "navigate (n # ns) lastname v d =
     (case (case dict_get d n of None \<Rightarrow> Some (VDict []) | Some x \<Rightarrow> Some x) of
        Some (VDict sub) \<Rightarrow>
          (case navigate ns lastname v sub of
             Inl e \<Rightarrow> Inl e
           | Inr sub' \<Rightarrow> Inr (dict_set n (VDict sub') d))
      | _ \<Rightarrow> Inl TypeError)"

text \<open>The body of the loop over \<^verbatim>\<open>unknown_args\<close>, lines 150 to 178.\<close>

definition apply_override ::
  "evaluator \<Rightarrow> addr \<Rightarrow> string \<Rightarrow> dict \<Rightarrow> store \<Rightarrow> (exn + dict) \<times> store" where
  "apply_override ev a arg config h =
     (case unpack2 (split_on CHR ''='' arg) of
        Inl e \<Rightarrow> (Inl e, h)
      | Inr (name, value) \<Rightarrow>
          (let arg_name = strip CHR ''/'' (lstrip CHR ''-'' name) in
           case unpack2 (rsplit1 CHR '':'' value) of
             Inl e \<Rightarrow> (Inl e, h)
           | Inr (value_content, value_type) \<Rightarrow>
               if CHR ''/'' \<in> set arg_name then
                 (let arg_names = split_on CHR ''/'' arg_name in
                  case (if value_type = ''str''
                        then (Inr (if lower value_content = ''none'' then VNone
                                   else VStr value_content), config, h)
                        else ev (value_type @ ''('' @ value_content @ '')'') config h) of
                    (Inl e, config1, h1) \<Rightarrow> (Inl e, h1)
                  | (Inr arg_value, config1, h1) \<Rightarrow>
                      (case navigate (butlast arg_names) (last arg_names) arg_value config1 of
                         Inl e \<Rightarrow> (Inl e, h1)
                       | Inr config' \<Rightarrow> (Inr config', h1)))
               else
                 (case (if value_type = ''str'' then (Inr (VStr value_content), config, h)
                        else ev (value_type @ ''('' @ value_content @ '')'') config h) of
                    (Inl e, config1, h1) \<Rightarrow> (Inl e, h1)
                  | (Inr arg_value, config1, h1) \<Rightarrow>
                      (Inr config1, setattr h1 a arg_name arg_value))))"

fun override_loop ::
  "evaluator \<Rightarrow> addr \<Rightarrow> string list \<Rightarrow> dict \<Rightarrow> store \<Rightarrow> (exn + dict) \<times> store" where
  "override_loop ev a [] config h = (Inr config, h)"
| "override_loop ev a (arg # rest) config h =
     (case apply_override ev a arg config h of
        (Inl e, h') \<Rightarrow> (Inl e, h')
      | (Inr config', h') \<Rightarrow> override_loop ev a rest config' h')"

text \<open>
  Lines 184 to 188, on the value held at \<^verbatim>\<open>config["args"]\<close>: every attribute that is not
  \<^verbatim>\<open>None\<close> is written there, except an empty \<^verbatim>\<open>logdir\<close> or \<^verbatim>\<open>baselogdir\<close>. Item assignment
  on a value that is not a dictionary is a \<^verbatim>\<open>TypeError\<close>.
\<close>

fun args_into_config :: "(string \<times> pyval) list \<Rightarrow> pyval \<Rightarrow> exn + pyval" where
  "args_into_config [] target = Inr target"
| "args_into_config ((key, value) # rest) target =
     (if value \<noteq> VNone then
        (if key \<in> set [''logdir'', ''baselogdir''] \<and> value = VStr [] then
           args_into_config rest target
         else
           (case target of
              VDict d \<Rightarrow> args_into_config rest (VDict (dict_set key value d))
            | _ \<Rightarrow> Inl TypeError))
      else args_into_config rest target)"

text \<open>
  The function returns \<^verbatim>\<open>(config, args)\<close>; \<^verbatim>\<open>args\<close> is the object it was given, so the
  model returns the dictionary and the store. The dictionary is mutated in place in the
  source; the model returns the new one, and an exception loses the partial update.
\<close>

definition parse_config_args ::
  "evaluator \<Rightarrow> dict \<Rightarrow> addr \<Rightarrow> string list \<Rightarrow> store \<Rightarrow> (exn + dict) \<times> store" where
  "parse_config_args ev config a unknown_args h =
     (case override_loop ev a unknown_args config h of
        (Inl e, h') \<Rightarrow> (Inl e, h')
      | (Inr config1, h') \<Rightarrow>
          (let config2 = (case dict_get config1 ''args'' of
                            None \<Rightarrow> dict_set ''args'' (VDict []) config1
                          | Some VNone \<Rightarrow> dict_set ''args'' (VDict []) config1
                          | Some _ \<Rightarrow> config1) in
           case dict_get config2 ''args'' of
             None \<Rightarrow> (Inr config2, h')
           | Some target \<Rightarrow>
               (case args_into_config (get_kwargs (objs h' a)) target of
                  Inl e \<Rightarrow> (Inl e, h')
                | Inr target' \<Rightarrow> (Inr (dict_set ''args'' target' config2), h'))))"

section \<open>merge_dicts\<close>

text \<open>
  Modelled from the spec: \<^verbatim>\<open>merge_dicts\<close> is imported from \<^verbatim>\<open>catalyst.utils.misc\<close>, which is
  not among the sources. The spec's contract (section 4.2): for every key in \<open>override\<close>, if
  it is absent in \<open>base\<close>, insert it; if it is present in both and both values are trees,
  merge recursively; otherwise overwrite with the value of \<open>override\<close>. Keys present only in
  \<open>base\<close> are preserved unchanged. A new tree is returned.
\<close>

fun merge_entries :: "dict \<Rightarrow> dict \<Rightarrow> dict"
  and merge_dicts :: "dict \<Rightarrow> dict \<Rightarrow> dict" where
  "merge_entries base [] = []"
| "merge_entries base ((k, v) # rest) =
     (k, (case dict_get base k of
            Some (VDict x) \<Rightarrow> (case v of VDict y \<Rightarrow> VDict (merge_dicts x y) | _ \<Rightarrow> v)
          | _ \<Rightarrow> v))
     # merge_entries base rest"
| "merge_dicts base override =
     fold (\<lambda>(k, v) acc. dict_set k v acc) (merge_entries base override) base"

section \<open>parse_args_uargs\<close>

text \<open>
  The file system is a function from a path to the text of the file there, if there is
  one. \<^verbatim>\<open>json.load\<close> and \<^verbatim>\<open>yaml.load\<close> are the libraries', taken as parameters: from the
  text to the document, dictionaries in the order of the text, or to the exception raised.
\<close>

type_synonym filesys = "string \<Rightarrow> string option"

type_synonym loader = "string \<Rightarrow> exn + pyval"

text \<open>
  \<^verbatim>\<open>load_ordered_yaml\<close> configures a loader class that builds every mapping from its pairs,
  in order, and runs \<^verbatim>\<open>yaml.load\<close> with it: the parameter \<open>yaml_load\<close> is that run.
\<close>

definition load_ordered_yaml :: "loader \<Rightarrow> string \<Rightarrow> exn + pyval" where
  "load_ordered_yaml yaml_load stream = yaml_load stream"

text \<open>Lines 209 to 215: open the file, then choose the parser by the end of the path.\<close>

definition load_config :: "filesys \<Rightarrow> loader \<Rightarrow> loader \<Rightarrow> string \<Rightarrow> exn + pyval" where
  "load_config fs json_load yaml_load config_path =
     (case fs config_path of
        None \<Rightarrow> Inl FileNotFoundError
      | Some fin \<Rightarrow>
          if endswith config_path ''json'' then json_load fin
          else if endswith config_path ''yml'' then load_ordered_yaml yaml_load fin
          else Inl (PyException ''Unknown file format''))"

text \<open>
  The loop of lines 208 to 216. The spec defines the merge on trees only; a document that
  is not a mapping is outside it, and the model raises there. A path that is not a string
  fails in \<^verbatim>\<open>open\<close> or at \<^verbatim>\<open>endswith\<close>; the model does not tell the two apart.
\<close>

fun load_configs :: "filesys \<Rightarrow> loader \<Rightarrow> loader \<Rightarrow> pyval list \<Rightarrow> dict \<Rightarrow> exn + dict" where
  "load_configs fs json_load yaml_load [] config = Inr config"
| "load_configs fs json_load yaml_load (VStr config_path # rest) config =
     (case load_config fs json_load yaml_load config_path of
        Inl e \<Rightarrow> Inl e
      | Inr (VDict config') \<Rightarrow>
          load_configs fs json_load yaml_load rest (merge_dicts config config')
      | Inr _ \<Rightarrow> Inl TypeError)"
| "load_configs fs json_load yaml_load (_ # rest) config = Inl TypeError"

text \<open>
  Lines 225 to 230, the entries of \<^verbatim>\<open>config["args"]\<close> written back on the record:
  \<^verbatim>\<open>getattr(args_, key, None)\<close> is kept unless it is \<^verbatim>\<open>None\<close>, or empty for \<^verbatim>\<open>logdir\<close> and
  \<^verbatim>\<open>baselogdir\<close>. Only attributes of the instance are modelled, not those of its class.
\<close>

fun merge_back :: "dict \<Rightarrow> addr \<Rightarrow> store \<Rightarrow> store" where
  "merge_back [] a h = h"
| "merge_back ((key, value) # rest) a h =
     (let arg_value = (case getattr h a key of None \<Rightarrow> VNone | Some x \<Rightarrow> x) in
      merge_back rest a
        (setattr h a key
           (if arg_value = VNone
               \<or> (key \<in> set [''logdir'', ''baselogdir''] \<and> arg_value = VStr [])
            then value else arg_value)))"

text \<open>
  Iterating \<^verbatim>\<open>args_.configs\<close>: a missing attribute is an \<^verbatim>\<open>AttributeError\<close>; a list gives
  its elements, a string its characters, a dictionary its keys, bytes their numbers; the
  other values are not iterable.
\<close>

definition iterate :: "pyval \<Rightarrow> exn + pyval list" where
  "iterate v =
     (case v of
        VList xs \<Rightarrow> Inr xs
      | VStr s \<Rightarrow> Inr (map (\<lambda>c. VStr [c]) s)
      | VDict d \<Rightarrow> Inr (map (\<lambda>k. VStr k) (keys d))
      | VBytes b \<Rightarrow> Inr (map (\<lambda>c. VInt (of_char c)) b)
      | _ \<Rightarrow> Inl TypeError)"

text \<open>
  The function returns \<^verbatim>\<open>(args_, config)\<close>: the address of the copy and the dictionary.
  \<^verbatim>\<open>config\<close> is local, so it is a value here; the records are in the store.
\<close>

definition parse_args_uargs ::
  "filesys \<Rightarrow> loader \<Rightarrow> loader \<Rightarrow> evaluator \<Rightarrow> addr \<Rightarrow> string list \<Rightarrow> store
     \<Rightarrow> (exn + (addr \<times> dict)) \<times> store" where
  "parse_args_uargs fs json_load yaml_load ev args unknown_args h0 =
     (case deepcopy h0 args of
        (args', h) \<Rightarrow>
          (case getattr h args' ''configs'' of
             None \<Rightarrow> (Inl AttributeError, h)
           | Some configs \<Rightarrow>
               (case iterate configs of
                  Inl e \<Rightarrow> (Inl e, h)
                | Inr paths \<Rightarrow>
                    (case load_configs fs json_load yaml_load paths [] of
                       Inl e \<Rightarrow> (Inl e, h)
                     | Inr config \<Rightarrow>
                         (case parse_config_args ev config args' unknown_args h of
                            (Inl e, h') \<Rightarrow> (Inl e, h')
                          | (Inr config', h') \<Rightarrow>
                              (case dict_get config' ''args'' of
                                 None \<Rightarrow> (Inr (args', config'), h')
                               | Some VNone \<Rightarrow> (Inr (args', config'), h')
                               | Some (VDict config_args) \<Rightarrow>
                                   (Inr (args', config'), merge_back config_args args' h')
                               | Some _ \<Rightarrow> (Inl AttributeError, h')))))))"

section \<open>get_environment_vars\<close>

text \<open>
  What the function reads from the process: the interpreter and \<^verbatim>\<open>pip\<close> versions, the
  environment variables, the local time, the five fields of \<^verbatim>\<open>os.uname()\<close>, and the
  outcome of running a command with \<^verbatim>\<open>subprocess.check_output\<close>: the bytes printed, a
  non-zero exit status (\<^verbatim>\<open>CalledProcessError\<close>), or no such program to run
  (\<^verbatim>\<open>FileNotFoundError\<close>).
\<close>

datatype proc = Output string | NonZeroExit | NoSuchProgram

record tm =
  tm_year :: nat
  tm_mon :: nat
  tm_mday :: nat
  tm_hour :: nat
  tm_min :: nat
  tm_sec :: nat

record host =
  sys_version :: string
  environ :: "string \<Rightarrow> string option"
  pip_version :: string
  localtime :: tm
  uname_sysname :: string
  uname_nodename :: string
  uname_release :: string
  uname_version :: string
  uname_machine :: string
  check_output :: "string list \<Rightarrow> proc"

definition digit :: "nat \<Rightarrow> char" where
  "digit n = ''0123456789'' ! (n mod 10)"

definition two_digits :: "nat \<Rightarrow> string" where
  "two_digits n = [digit (n div 10), digit n]"

text \<open>\<^verbatim>\<open>time.strftime("%y%m%d.%H:%M:%S")\<close>.\<close>

definition strftime :: "tm \<Rightarrow> string" where
  "strftime t =
     two_digits (tm_year t mod 100) @ two_digits (tm_mon t) @ two_digits (tm_mday t)
     @ ''.'' @ two_digits (tm_hour t) @ '':'' @ two_digits (tm_min t)
     @ '':'' @ two_digits (tm_sec t)"

text \<open>\<^verbatim>\<open>s.split()\<close> and \<^verbatim>\<open>s.strip()\<close> with no argument work on ASCII white space.\<close>

definition is_space :: "char \<Rightarrow> bool" where
  "is_space c = (c \<in> set [CHR '' '', CHR 0x09, CHR 0x0A, CHR 0x0B, CHR 0x0C, CHR 0x0D])"

fun split_ws :: "string \<Rightarrow> string \<Rightarrow> string list" where
  "split_ws w [] = (if w = [] then [] else [rev w])"
| "split_ws w (c # cs) =
     (if is_space c then (if w = [] then split_ws [] cs else rev w # split_ws [] cs)
      else split_ws (c # w) cs)"

definition split_words :: "string \<Rightarrow> string list" where
  "split_words s = split_ws [] s"

definition strip_ws :: "string \<Rightarrow> string" where
  "strip_ws s = rev (dropWhile is_space (rev (dropWhile is_space s)))"

text \<open>\<^verbatim>\<open>os.environ.get(name, "")\<close>.\<close>

definition environ_get :: "host \<Rightarrow> string \<Rightarrow> string" where
  "environ_get hst name = (case environ hst name of None \<Rightarrow> [] | Some v \<Rightarrow> v)"

text \<open>\<^verbatim>\<open>_decode_dict\<close>: every value of type \<^verbatim>\<open>bytes\<close> is decoded, the others are kept.\<close>

definition decode_dict :: "dict \<Rightarrow> dict" where
  "decode_dict dictionary =
     map (\<lambda>(k, v). (k, (case v of VBytes b \<Rightarrow> VStr b | _ \<Rightarrow> v))) dictionary"

text \<open>
  The \<^verbatim>\<open>try\<close> block of lines 85 to 103. Only \<^verbatim>\<open>subprocess.CalledProcessError\<close> is caught:
  then there is no \<^verbatim>\<open>git\<close> entry (\<open>Inr None\<close>). Any other exception leaves the function.
\<close>

definition git_block :: "(string list \<Rightarrow> proc) \<Rightarrow> exn + dict option" where
  "git_block run =
     (case run (split_words ''git rev-parse --abbrev-ref HEAD'') of
        NoSuchProgram \<Rightarrow> Inl FileNotFoundError
      | NonZeroExit \<Rightarrow> Inr None
      | Output out \<Rightarrow>
          (let git_branch = strip_ws out in
           case run (split_words ''git rev-parse HEAD'') of
             NoSuchProgram \<Rightarrow> Inl FileNotFoundError
           | NonZeroExit \<Rightarrow> Inr None
           | Output git_local_commit \<Rightarrow>
               (case run (split_words (''git rev-parse origin/'' @ git_branch)) of
                  NoSuchProgram \<Rightarrow> Inl FileNotFoundError
                | NonZeroExit \<Rightarrow> Inr None
                | Output git_origin_commit \<Rightarrow>
                    Inr (Some
                      [(''branch'', VStr git_branch),
                       (''local_commit'', VBytes git_local_commit),
                       (''origin_commit'', VBytes git_origin_commit)]))))"

definition get_environment_vars :: "host \<Rightarrow> exn + dict" where
  "get_environment_vars hst =
     (let result =
        [(''python_version'', VStr (sys_version hst)),
         (''conda_environment'', VStr (environ_get hst ''CONDA_DEFAULT_ENV'')),
         (''pip'', VStr (pip_version hst)),
         (''creation_time'', VStr (strftime (localtime hst))),
         (''sysname'', VStr (uname_sysname hst)),
         (''nodename'', VStr (uname_nodename hst)),
         (''release'', VStr (uname_release hst)),
         (''version'', VStr (uname_version hst)),
         (''architecture'', VStr (uname_machine hst)),
         (''user'', VStr (environ_get hst ''USER'')),
         (''path'', VStr (environ_get hst ''PWD''))] in
      case git_block (check_output hst) of
        Inl e \<Rightarrow> Inl e
      | Inr None \<Rightarrow> Inr (decode_dict result)
      | Inr (Some git) \<Rightarrow>
          Inr (decode_dict (dict_set ''git'' (VDict (decode_dict git)) result)))"

section \<open>dump_config\<close>

text \<open>
  A path as \<^verbatim>\<open>pathlib\<close> keeps it on POSIX: the root (\<^verbatim>\<open>/\<close>, \<^verbatim>\<open>//\<close> for exactly two leading
  slashes, or none) and the components, with empty components and \<^verbatim>\<open>.\<close> dropped. So
  \<^verbatim>\<open>Path("")\<close> and \<^verbatim>\<open>Path(".")\<close> have no component, and \<^verbatim>\<open>Path("runs/")\<close> is \<^verbatim>\<open>Path("runs")\<close>.
\<close>

record path =
  anchor :: string
  parts :: "string list"

text \<open>\<^verbatim>\<open>Path(s)\<close>.\<close>

definition pure_path :: "string \<Rightarrow> path" where
  "pure_path s =
     \<lparr>anchor = (if take 2 s = ''//'' \<and> take 3 s \<noteq> ''///'' then ''//''
                else if take 1 s = ''/'' then ''/''
                else []),
      parts = filter (\<lambda>c. c \<noteq> [] \<and> c \<noteq> ''.'') (split_on CHR ''/'' s)\<rparr>"

text \<open>\<^verbatim>\<open>p / s\<close>: a rooted \<^verbatim>\<open>s\<close> replaces \<^verbatim>\<open>p\<close>, otherwise its components follow those of \<^verbatim>\<open>p\<close>.\<close>

definition joinpath :: "path \<Rightarrow> string \<Rightarrow> path" where
  "joinpath p s =
     (if anchor (pure_path s) \<noteq> [] then pure_path s
      else \<lparr>anchor = anchor p, parts = parts p @ parts (pure_path s)\<rparr>)"

text \<open>\<^verbatim>\<open>p.name\<close>, the last component, empty when there is none; and \<^verbatim>\<open>p.parent\<close>.\<close>

definition path_name :: "path \<Rightarrow> string" where
  "path_name p = (if parts p = [] then [] else last (parts p))"

definition parent :: "path \<Rightarrow> path" where
  "parent p = \<lparr>anchor = anchor p, parts = butlast (parts p)\<rparr>"

text \<open>
  The disk the function writes to, entries named by paths without \<^verbatim>\<open>..\<close> and without
  symbolic links: the directories (a path with no component, the root or the working
  directory, always is one), the regular files with their text, the entries the system
  refuses to create or to write (permissions, a read-only file system), and the records
  added to the text summary of a directory (directory, tag, text, step).
  \<^verbatim>\<open>safitty.save\<close> and \<^verbatim>\<open>json.dumps(_, indent=2)\<close> are the libraries', taken as parameters:
  from the value to its text, or to the exception raised.
\<close>

record disk =
  is_dir :: "path \<Rightarrow> bool"
  files :: "path \<Rightarrow> string option"
  refused :: "path \<Rightarrow> bool"
  summary :: "(path \<times> string \<times> string \<times> nat) list"

type_synonym serialiser = "pyval \<Rightarrow> exn + string"

definition dir_exists :: "disk \<Rightarrow> path \<Rightarrow> bool" where
  "dir_exists d p = (parts p = [] \<or> is_dir d p)"

text \<open>
  \<^verbatim>\<open>config_dir.mkdir(exist_ok=True, parents=True)\<close>, from the first component down
  (\<open>passed\<close> are the components already walked, \<open>todo\<close> those to come). A regular file on
  the way is a \<^verbatim>\<open>NotADirectoryError\<close>, at the path itself a \<^verbatim>\<open>FileExistsError\<close>; a
  directory already there is left as it is; a missing one is created, unless the system
  refuses.
\<close>

fun mkdirs :: "string \<Rightarrow> string list \<Rightarrow> string list \<Rightarrow> disk \<Rightarrow> exn + disk" where
  "mkdirs anc passed [] d = Inr d"
| "mkdirs anc passed (c # todo) d =
     (if files d \<lparr>anchor = anc, parts = passed @ [c]\<rparr> \<noteq> None then
        Inl (if todo = [] then FileExistsError else NotADirectoryError)
      else if is_dir d \<lparr>anchor = anc, parts = passed @ [c]\<rparr> then
        mkdirs anc (passed @ [c]) todo d
      else if refused d \<lparr>anchor = anc, parts = passed @ [c]\<rparr> then Inl PermissionError
      else mkdirs anc (passed @ [c]) todo
             (d\<lparr>is_dir := (is_dir d)(\<lparr>anchor = anc, parts = passed @ [c]\<rparr> := True)\<rparr>))"

definition mkdir :: "path \<Rightarrow> disk \<Rightarrow> exn + disk" where
  "mkdir p d = mkdirs (anchor p) [] (parts p) d"

text \<open>
  \<^verbatim>\<open>open(p, "w")\<close> and writing the text: the path must not be a directory, its parent must
  be one, and the system must not refuse.
\<close>

definition write_file :: "path \<Rightarrow> string \<Rightarrow> disk \<Rightarrow> exn + disk" where
  "write_file p txt d =
     (if dir_exists d p then Inl IsADirectoryError
      else if files d (parent p) \<noteq> None then Inl NotADirectoryError
      else if \<not> dir_exists d (parent p) then Inl FileNotFoundError
      else if refused d p then Inl PermissionError
      else Inr (d\<lparr>files := (files d)(p := Some txt)\<rparr>))"

text \<open>
  \<^verbatim>\<open>safitty.save(value, path)\<close>. A failure of the serialiser is returned with the disk as
  it was; what the library leaves of the file then is not modelled.
\<close>

definition save :: "serialiser \<Rightarrow> pyval \<Rightarrow> path \<Rightarrow> disk \<Rightarrow> (exn + unit) \<times> disk" where
  "save ser v p d =
     (case ser v of
        Inl e \<Rightarrow> (Inl e, d)
      | Inr txt \<Rightarrow>
          (case write_file p txt d of
             Inl e \<Rightarrow> (Inl e, d)
           | Inr d' \<Rightarrow> (Inr (), d')))"

text \<open>The loop of lines 134 to 137, \<^verbatim>\<open>shutil.copyfile\<close> into the directory.\<close>

fun copy_configs :: "path list \<Rightarrow> path \<Rightarrow> disk \<Rightarrow> (exn + unit) \<times> disk" where
  "copy_configs [] config_dir d = (Inr (), d)"
| "copy_configs (src # rest) config_dir d =
     (if src = joinpath config_dir (path_name src) then (Inl (Raised ''SameFileError''), d)
      else if dir_exists d src then (Inl IsADirectoryError, d)
      else (case files d src of
              None \<Rightarrow> (Inl FileNotFoundError, d)
            | Some txt \<Rightarrow>
                (case write_file (joinpath config_dir (path_name src)) txt d of
                   Inl e \<Rightarrow> (Inl e, d)
                 | Inr d' \<Rightarrow> copy_configs rest config_dir d')))"

text \<open>\<^verbatim>\<open>s.replace("\n", "\n\n")\<close>.\<close>

definition double_newlines :: "string \<Rightarrow> string" where
  "double_newlines s = concat (map (\<lambda>c. if c = CHR 0x0A then [c, c] else [c]) s)"

text \<open>
  \<^verbatim>\<open>configs_path or []\<close>, then \<^verbatim>\<open>Path(path)\<close> for the strings among its elements.
\<close>

definition str_paths :: "pyval list option \<Rightarrow> path list" where
  "str_paths configs_path =
     concat (map (\<lambda>p. case p of VStr s \<Rightarrow> [pure_path s] | _ \<Rightarrow> [])
                 (case configs_path of None \<Rightarrow> [] | Some ps \<Rightarrow> ps))"

text \<open>
  The function itself, in the order of its lines: the directory (127), the snapshot
  (129), the two documents (131, 132), the copies (134 to 137), the summary (139 to 145).
  An exception leaves the disk as the lines before it made it.
\<close>

definition dump_config ::
  "serialiser \<Rightarrow> serialiser \<Rightarrow> host \<Rightarrow> dict \<Rightarrow> string \<Rightarrow> pyval list option \<Rightarrow> disk
     \<Rightarrow> (exn + unit) \<times> disk" where
  "dump_config ser dumps hst experiment_config logdir configs_path d0 =
     (let paths = str_paths configs_path;
          config_dir = joinpath (pure_path logdir) ''configs'' in
      case mkdir config_dir d0 of
        Inl e \<Rightarrow> (Inl e, d0)
      | Inr d1 \<Rightarrow>
          (case get_environment_vars hst of
             Inl e \<Rightarrow> (Inl e, d1)
           | Inr environment \<Rightarrow>
               (case save ser (VDict experiment_config)
                       (joinpath config_dir ''_config.json'') d1 of
                  (Inl e, d2) \<Rightarrow> (Inl e, d2)
                | (Inr _, d2) \<Rightarrow>
                    (case save ser (VDict environment)
                            (joinpath config_dir ''_environment.json'') d2 of
                       (Inl e, d3) \<Rightarrow> (Inl e, d3)
                     | (Inr _, d3) \<Rightarrow>
                         (case copy_configs paths config_dir d3 of
                            (Inl e, d4) \<Rightarrow> (Inl e, d4)
                          | (Inr _, d4) \<Rightarrow>
                              (case dumps (VDict experiment_config) of
                                 Inl e \<Rightarrow> (Inl e, d4)
                               | Inr config_str \<Rightarrow>
                                   (case dumps (VDict environment) of
                                      Inl e \<Rightarrow> (Inl e, d4)
                                    | Inr environment_str \<Rightarrow>
                                        (Inr (),
                                         d4\<lparr>summary := summary d4 @
                                           [(config_dir, ''config'',
                                             double_newlines config_str, 0),
                                            (config_dir, ''environment'',
                                             double_newlines environment_str, 0)]\<rparr>))))))))"


section \<open>Sample inputs\<close>

text \<open>
  A store holding one record, at address 0, and tables of the external functions at the
  texts the examples use: what Python's \<^verbatim>\<open>eval\<close> gives for four expressions that change
  nothing (\<^verbatim>\<open>0.01\<close> as a double is \<open>5764607523034235 * 2 ^ -59\<close>; \<^verbatim>\<open>weird\<close> is not a name in
  scope), what \<^verbatim>\<open>json.load\<close> and \<^verbatim>\<open>yaml.load\<close> give for the documents used, and a file
  system with four files.
\<close>

definition store_of :: "namespace \<Rightarrow> store" where
  "store_of ns = \<lparr>objs = (\<lambda>_. [])(0 := ns), fresh = 1\<rparr>"

definition eval_table :: evaluator where
  "eval_table s config h =
     (if s = ''float(0.01)'' then Inr (VFloat 5764607523034235 (- 59))
      else if s = ''abs(1)'' then Inr (VInt 1)
      else if s = ''int(3)'' then Inr (VInt 3)
      else if s = ''weird(1)'' then Inl (Raised ''NameError'')
      else Inl (Raised ''SyntaxError''),
      config, h)"


definition json_table :: loader where
  "json_table s =
     (if s = ''{\"args\": {\"logdir\": \"/from/config\"}}''
      then Inr (VDict [(''args'', VDict [(''logdir'', VStr ''/from/config'')])])
      else if s = ''{\"a\": 1}'' then Inr (VDict [(''a'', VInt 1)])
      else Inl (Raised ''JSONDecodeError''))"

definition yaml_table :: loader where
  "yaml_table s =
     (if s = ''a: 1'' then Inr (VDict [(''a'', VInt 1)])
      else Inl (Raised ''YAMLError''))"

definition files_table :: filesys where
  "files_table =
     map_of [(''exp.json'', ''{\"args\": {\"logdir\": \"/from/config\"}}''),
             (''config.json'', ''{\"a\": 1}''),
             (''config.yml'', ''a: 1''),
             (''config.yaml'', ''a: 1'')]"

text \<open>
  A host for the examples, as a function of what running a command gives: no \<^verbatim>\<open>git\<close>
  program at all, \<^verbatim>\<open>git\<close> run outside a checkout, and \<^verbatim>\<open>git\<close> in a checkout of the branch
  \<^verbatim>\<open>master\<close>.
\<close>

definition host_with :: "(string list \<Rightarrow> proc) \<Rightarrow> host" where
  "host_with run =
     \<lparr>sys_version = ''3.6.8'',
      environ = map_of [(''USER'', ''alice''), (''PWD'', ''/home/alice/exp'')],
      pip_version = ''19.0.3'',
      localtime = \<lparr>tm_year = 2019, tm_mon = 4, tm_mday = 9,
                    tm_hour = 13, tm_min = 5, tm_sec = 0\<rparr>,
      uname_sysname = ''Linux'',
      uname_nodename = ''box'',
      uname_release = ''4.15.0'',
      uname_version = ''#1 SMP'',
      uname_machine = ''x86_64'',
      check_output = run\<rparr>"

definition git_missing :: "string list \<Rightarrow> proc" where
  "git_missing cmd = NoSuchProgram"

definition git_outside_checkout :: "string list \<Rightarrow> proc" where
  "git_outside_checkout cmd = NonZeroExit"

definition git_table :: "string list \<Rightarrow> proc" where
  "git_table cmd =
     (if cmd = [''git'', ''rev-parse'', ''--abbrev-ref'', ''HEAD''] then Output (''master'' @ [CHR 0x0A])
      else if cmd = [''git'', ''rev-parse'', ''HEAD''] then Output (''1f2e3d'' @ [CHR 0x0A])
      else if cmd = [''git'', ''rev-parse'', ''origin/master''] then Output (''0a9b8c'' @ [CHR 0x0A])
      else NonZeroExit)"

text \<open>Whether a value is a tree, and two trees for the examples of the merge.\<close>

fun is_dict :: "pyval \<Rightarrow> bool" where
  "is_dict (VDict d) = True"
| "is_dict _ = False"

definition tree_A :: dict where
  "tree_A = [(''a'', VInt 1), (''model'', VDict [(''depth'', VInt 2)]), (''tags'', VList [VInt 1])]"

definition tree_B :: dict where
  "tree_B = [(''model'', VDict [(''lr'', VInt 3)]), (''c'', VInt 3), (''tags'', VList [VInt 2])]"

text \<open>The arguments record of a command line with an empty \<^verbatim>\<open>logdir\<close> and one config file.\<close>

definition cli_args :: namespace where
  "cli_args = [(''logdir'', VStr []), (''configs'', VList [VStr ''exp.json''])]"

text \<open>
  For the example of the dump: the snapshot of the host in a checkout, a table of two
  documents with the text they are stored as (serialiser and reader are the table read
  in either direction), a disk with nothing on it, and a disk on which the directory
  \<^verbatim>\<open>runs/configs\<close> already exists.
\<close>

definition snapshot_example :: dict where
  "snapshot_example =
     [(''python_version'', VStr ''3.6.8''),
      (''conda_environment'', VStr []),
      (''pip'', VStr ''19.0.3''),
      (''creation_time'', VStr ''190409.13:05:00''),
      (''sysname'', VStr ''Linux''),
      (''nodename'', VStr ''box''),
      (''release'', VStr ''4.15.0''),
      (''version'', VStr ''#1 SMP''),
      (''architecture'', VStr ''x86_64''),
      (''user'', VStr ''alice''),
      (''path'', VStr ''/home/alice/exp''),
      (''git'', VDict [(''branch'', VStr ''master''),
                       (''local_commit'', VStr (''1f2e3d'' @ [CHR 0x0A])),
                       (''origin_commit'', VStr (''0a9b8c'' @ [CHR 0x0A]))])]"

definition document_texts :: "(pyval \<times> string) list" where
  "document_texts =
     [(VDict [(''a'', VInt 1)], ''{\"a\": 1}''),
      (VDict snapshot_example, ''{\"python_version\": \"3.6.8\", \"creation_time\": \"190409.13:05:00\"}'')]"

definition save_table :: serialiser where
  "save_table v = (case map_of document_texts v of
                     None \<Rightarrow> Inl (Raised ''TypeError'')
                   | Some t \<Rightarrow> Inr t)"

definition read_table :: "string \<Rightarrow> pyval option" where
  "read_table t = map_of (map (\<lambda>(v, t). (t, v)) document_texts) t"

definition runs_configs :: path where
  "runs_configs = \<lparr>anchor = [], parts = [''runs'', ''configs'']\<rparr>"

definition empty_disk :: disk where
  "empty_disk =
     \<lparr>is_dir = (\<lambda>p. False), files = (\<lambda>p. None), refused = (\<lambda>p. False), summary = []\<rparr>"

definition disk_with_dir :: disk where
  "disk_with_dir =
     \<lparr>is_dir = (\<lambda>p. p = \<lparr>anchor = [], parts = [''runs'']\<rparr> \<or> p = runs_configs),
      files = (\<lambda>p. None), refused = (\<lambda>p. False), summary = []\<rparr>"

section \<open>Facts about the string operations and dictionaries\<close>



lemma dict_get_dict_set:
  "dict_get (dict_set k v d) k' = (if k' = k then Some v else dict_get d k')"
  by (induction d) auto

lemma split_on_nonempty: "split_on c s \<noteq> []"
  by (induction s) (auto split: list.splits)

lemma split_on_absent: "c \<notin> set s \<Longrightarrow> split_on c s = [s]"
  by (induction s) (auto split: list.splits)













section \<open>Override tokens without a type tag\<close>






section \<open>Facts about the walk down the tree\<close>

lemma args_into_config_dict:
  "\<exists>d'. args_into_config kw (VDict d) = Inr (VDict d')"
  by (induction kw arbitrary: d) auto






section \<open>Override tokens with a type tag\<close>




text \<open>
  Claim C2 at its own input. The name \<^verbatim>\<open>tag\<close> has no slash, so the branch of lines 174 to
  178 runs: it binds the text \<^verbatim>\<open>none\<close> as a string on the arguments record, and from there
  it is copied under \<^verbatim>\<open>config["args"]\<close>. The branch for names with a slash (lines 157 to
  161) is the one that turns the literal into \<^verbatim>\<open>None\<close>.
\<close>

theorem none_literal_kept_on_record:
  "getattr (snd (parse_config_args eval_table [] 0 [''--tag=none:str''] (store_of []))) 0 ''tag''
     = Some (VStr ''none'')
   \<and> fst (parse_config_args eval_table [] 0 [''--tag=none:str''] (store_of []))
     = Inr [(''args'', VDict [(''tag'', VStr ''none'')])]
   \<and> fst (parse_config_args eval_table [] 0 [''--a/tag=none:str''] (store_of []))
     = Inr [(''a'', VDict [(''tag'', VNone)]), (''args'', VDict [])]"
  by code_simp




section \<open>The environment snapshot\<close>

text \<open>
  Outside a checkout \<^verbatim>\<open>git\<close> exits with a non-zero status, \<^verbatim>\<open>CalledProcessError\<close> is
  caught, and the snapshot has no \<^verbatim>\<open>git\<close> entry.
\<close>

lemma outside_checkout_git_omitted:
  assumes "check_output hst (split_words ''git rev-parse --abbrev-ref HEAD'') = NonZeroExit"
  shows "\<exists>snapshot. get_environment_vars hst = Inr snapshot \<and> dict_get snapshot ''git'' = None"
  using assms by (simp add: get_environment_vars_def git_block_def decode_dict_def)

text \<open>
  Claim C4 at the input it fails on. With no \<^verbatim>\<open>git\<close> program to run,
  \<^verbatim>\<open>subprocess.check_output\<close> raises \<^verbatim>\<open>FileNotFoundError\<close>, which the \<^verbatim>\<open>except\<close> clause of line
  102 does not catch: the capture as a whole fails.
\<close>

theorem missing_git_binary_raises:
  "get_environment_vars (host_with git_missing) = Inl FileNotFoundError"
  by (simp add: get_environment_vars_def git_block_def host_with_def git_missing_def)

section \<open>Loading the configuration files\<close>

lemma yaml_suffix: "\<not> endswith (stem @ ''.yaml'') ''json'' \<and> \<not> endswith (stem @ ''.yaml'') ''yml''"
  by (simp add: endswith_def)

lemma deepcopy_getattr:
  "deepcopy h a = (a', h') \<Longrightarrow> getattr h' a' k = getattr h a k"
  by (auto simp: deepcopy_def getattr_def)

text \<open>
  Claim C3 as stated lists \<^verbatim>\<open>.yaml\<close> among the recognised extensions. The file is there,
  but the path ends neither in \<^verbatim>\<open>json\<close> nor in \<^verbatim>\<open>yml\<close>, and line 215 raises.
\<close>

theorem yaml_extension_counterexample:
  "files_table ''config.yaml'' = Some ''a: 1''
   \<and> load_config files_table json_table yaml_table ''config.yaml''
       = Inl (PyException ''Unknown file format'')
   \<and> fst (parse_args_uargs files_table json_table yaml_table eval_table 0 []
            (store_of [(''configs'', VList [VStr ''config.yaml''])]))
       = Inl (PyException ''Unknown file format'')"
  by code_simp

text \<open>
  Claim C3, as the code has it. For a path that can be opened, the end of the path picks
  the parser: \<^verbatim>\<open>json\<close> gives the document of \<^verbatim>\<open>json.load\<close>, otherwise \<^verbatim>\<open>yml\<close> gives the
  document of \<^verbatim>\<open>load_ordered_yaml\<close>, and any other ending, \<^verbatim>\<open>.yaml\<close> included, raises
  \<^verbatim>\<open>Exception("Unknown file format")\<close>, which \<^verbatim>\<open>parse_args_uargs\<close> lets escape. A path that
  cannot be opened fails in \<^verbatim>\<open>open\<close>, before its ending is looked at.
\<close>

theorem config_format_by_suffix:
  assumes "fs path = Some fin"
  shows "load_config fs json_load yaml_load path =
           (if endswith path ''json'' then json_load fin
            else if endswith path ''yml'' then load_ordered_yaml yaml_load fin
            else Inl (PyException ''Unknown file format''))
         \<and> (path = stem @ ''.yaml''
              \<longrightarrow> load_config fs json_load yaml_load path = Inl (PyException ''Unknown file format''))
         \<and> (getattr h a ''configs'' = Some (VList (VStr path # rest))
              \<and> \<not> endswith path ''json'' \<and> \<not> endswith path ''yml''
              \<longrightarrow> fst (parse_args_uargs fs json_load yaml_load ev a unknown_args h)
                    = Inl (PyException ''Unknown file format''))
         \<and> (fs other = None \<longrightarrow> load_config fs json_load yaml_load other = Inl FileNotFoundError)"
proof (intro conjI impI)
  show l: "load_config fs json_load yaml_load path =
           (if endswith path ''json'' then json_load fin
            else if endswith path ''yml'' then load_ordered_yaml yaml_load fin
            else Inl (PyException ''Unknown file format''))"
    using assms by (simp add: load_config_def)
  show "load_config fs json_load yaml_load path = Inl (PyException ''Unknown file format'')"
    if "path = stem @ ''.yaml''"
    using l that yaml_suffix [of stem] by simp
  show "fst (parse_args_uargs fs json_load yaml_load ev a unknown_args h)
          = Inl (PyException ''Unknown file format'')"
    if c: "getattr h a ''configs'' = Some (VList (VStr path # rest))
              \<and> \<not> endswith path ''json'' \<and> \<not> endswith path ''yml''"
  proof -
    obtain a' h' where d: "deepcopy h a = (a', h')" by (cases "deepcopy h a")
    from deepcopy_getattr [OF d] c
    have g: "getattr h' a' ''configs'' = Some (VList (VStr path # rest))" by simp
    from l c have "load_config fs json_load yaml_load path = Inl (PyException ''Unknown file format'')"
      by simp
    then show ?thesis
      by (simp add: parse_args_uargs_def d g iterate_def)
  qed
  show "load_config fs json_load yaml_load other = Inl FileNotFoundError" if "fs other = None"
    using that by (simp add: load_config_def)
qed

theorem config_format_by_suffix_witness:
  "files_table ''config.yaml'' = Some ''a: 1''
   \<and> ''config.yaml'' = ''config'' @ ''.yaml''
   \<and> load_config files_table json_table yaml_table ''config.yaml''
       = Inl (PyException ''Unknown file format'')
   \<and> getattr (store_of [(''configs'', VList [VStr ''config.yaml''])]) 0 ''configs''
       = Some (VList [VStr ''config.yaml''])
   \<and> \<not> endswith ''config.yaml'' ''json'' \<and> \<not> endswith ''config.yaml'' ''yml''
   \<and> fst (parse_args_uargs files_table json_table yaml_table eval_table 0 []
            (store_of [(''configs'', VList [VStr ''config.yaml''])]))
       = Inl (PyException ''Unknown file format'')
   \<and> files_table ''missing.json'' = None
   \<and> load_config files_table json_table yaml_table ''missing.json'' = Inl FileNotFoundError"
proof -
  have f: "files_table ''config.yaml'' = Some ''a: 1''" by (simp add: files_table_def)
  have m: "files_table ''missing.json'' = None" by (simp add: files_table_def)
  have g: "getattr (store_of [(''configs'', VList [VStr ''config.yaml''])]) 0 ''configs''
       = Some (VList [VStr ''config.yaml''])" by (simp add: getattr_def store_of_def)
  have e: "\<not> endswith ''config.yaml'' ''json'' \<and> \<not> endswith ''config.yaml'' ''yml''"
    by (simp add: endswith_def)
  show ?thesis
    using config_format_by_suffix [where fs = files_table and path = "''config.yaml''"
        and fin = "''a: 1''" and json_load = json_table and yaml_load = yaml_table
        and stem = "''config''" and h = "store_of [(''configs'', VList [VStr ''config.yaml''])]"
        and a = 0 and rest = "[]" and ev = eval_table and unknown_args = "[]"
        and other = "''missing.json''"] f m g e
    by simp
qed

section \<open>What the functions change in the store\<close>


lemma setattr_fresh: "fresh (setattr h a k v) = fresh h"
  by (simp add: setattr_def)








section \<open>The merge of two trees\<close>

declare merge_dicts.simps [simp del]

lemma dict_get_map_of: "dict_get d k = map_of d k"
  by (induction d) auto

lemma keys_dict_set:
  "keys (dict_set k v d) = (if k \<in> set (keys d) then keys d else keys d @ [k])"
  by (induction d) (force simp: keys_def)+

lemma distinct_dict_set: "distinct (keys d) \<Longrightarrow> distinct (keys (dict_set k v d))"
  by (simp add: keys_dict_set)

lemma fold_dict_set_lookup:
  "distinct (map fst es) \<Longrightarrow>
   dict_get (fold (\<lambda>(k, v) acc. dict_set k v acc) es acc) k
     = (case map_of es k of None \<Rightarrow> dict_get acc k | Some v \<Rightarrow> Some v)"
proof (induction es arbitrary: acc)
  case Nil
  then show ?case by simp
next
  case (Cons e es)
  obtain k' v' where e: "e = (k', v')" by (cases e)
  from Cons.prems e have n: "map_of es k' = None"
    by (simp add: map_of_eq_None_iff)
  from Cons.prems have d: "distinct (map fst es)" by simp
  show ?case
    using Cons.IH [OF d, of "dict_set k' v' acc"] e n
    by (auto simp: dict_get_dict_set split: option.splits)
qed

lemma merge_entries_keys: "map fst (merge_entries base override) = map fst override"
  by (induction override) auto

lemma merge_entries_lookup:
  "map_of (merge_entries base override) k
     = (case map_of override k of
          None \<Rightarrow> None
        | Some v \<Rightarrow>
            Some (case dict_get base k of
                    Some (VDict x) \<Rightarrow> (case v of VDict y \<Rightarrow> VDict (merge_dicts x y) | _ \<Rightarrow> v)
                  | _ \<Rightarrow> v))"
  by (induction override) (auto split: option.splits pyval.splits)

lemma merge_dicts_lookup:
  assumes "distinct (keys override)"
  shows "dict_get (merge_dicts base override) k
     = (case dict_get override k of
          None \<Rightarrow> dict_get base k
        | Some v \<Rightarrow>
            Some (case dict_get base k of
                    Some (VDict x) \<Rightarrow> (case v of VDict y \<Rightarrow> VDict (merge_dicts x y) | _ \<Rightarrow> v)
                  | _ \<Rightarrow> v))"
proof -
  have d: "distinct (map fst (merge_entries base override))"
    using assms by (simp add: merge_entries_keys keys_def)
  have m: "map_of override k = dict_get override k"
    by (simp add: dict_get_map_of)
  have "dict_get (merge_dicts base override) k
          = (case map_of (merge_entries base override) k of
               None \<Rightarrow> dict_get base k
             | Some v \<Rightarrow> Some v)"
    unfolding merge_dicts.simps [of base override]
    by (rule fold_dict_set_lookup [OF d])
  then show ?thesis
    unfolding merge_entries_lookup m
    by (simp split: option.splits)
qed

text \<open>
  Claim C6, on the merge as the spec describes it (the function itself is not among the
  sources). For trees \<open>A\<close> and \<open>B\<close>, the keys of \<open>B\<close> distinct as in any dictionary: a
  key only in \<open>B\<close> has the value of \<open>B\<close>; a key not in \<open>B\<close> has what \<open>A\<close> has for it;
  a key whose values are trees in both has the merge of the two; a key in both where one
  of the values is not a tree has the value of \<open>B\<close>, so two lists are not concatenated.
\<close>

theorem merge_right_biased:
  assumes "distinct (keys B)"
  shows "(dict_get A k = None \<and> dict_get B k = Some v
            \<longrightarrow> dict_get (merge_dicts A B) k = Some v)
       \<and> (dict_get B k = None \<longrightarrow> dict_get (merge_dicts A B) k = dict_get A k)
       \<and> (dict_get A k = Some (VDict x) \<and> dict_get B k = Some (VDict y)
            \<longrightarrow> dict_get (merge_dicts A B) k = Some (VDict (merge_dicts x y)))
       \<and> (dict_get A k = Some u \<and> dict_get B k = Some v \<and> \<not> (is_dict u \<and> is_dict v)
            \<longrightarrow> dict_get (merge_dicts A B) k = Some v)"
proof (intro conjI impI)
  note l = merge_dicts_lookup [OF assms, of A k]
  show "dict_get (merge_dicts A B) k = Some v" if "dict_get A k = None \<and> dict_get B k = Some v"
    using l that by simp
  show "dict_get (merge_dicts A B) k = dict_get A k" if "dict_get B k = None"
    using l that by simp
  show "dict_get (merge_dicts A B) k = Some (VDict (merge_dicts x y))"
    if "dict_get A k = Some (VDict x) \<and> dict_get B k = Some (VDict y)"
    using l that by simp
  show "dict_get (merge_dicts A B) k = Some v"
    if "dict_get A k = Some u \<and> dict_get B k = Some v \<and> \<not> (is_dict u \<and> is_dict v)"
    using l that by (cases u) (simp_all, cases v, simp_all)
qed


theorem merge_right_biased_witness:
  "distinct (keys tree_B)
   \<and> dict_get tree_A ''c'' = None \<and> dict_get tree_B ''c'' = Some (VInt 3)
   \<and> dict_get (merge_dicts tree_A tree_B) ''c'' = Some (VInt 3)
   \<and> dict_get tree_B ''a'' = None
   \<and> dict_get (merge_dicts tree_A tree_B) ''a'' = Some (VInt 1)
   \<and> dict_get (merge_dicts tree_A tree_B) ''model''
       = Some (VDict (merge_dicts [(''depth'', VInt 2)] [(''lr'', VInt 3)]))
   \<and> \<not> (is_dict (VList [VInt 1]) \<and> is_dict (VList [VInt 2]))
   \<and> dict_get (merge_dicts tree_A tree_B) ''tags'' = Some (VList [VInt 2])"
proof -
  have d: "distinct (keys tree_B)" by (simp add: tree_B_def keys_def)
  show ?thesis
    using merge_right_biased [OF d, where A = tree_A and k = "''c''" and v = "VInt 3"]
      merge_right_biased [OF d, where A = tree_A and k = "''a''"]
      merge_right_biased [OF d, where A = tree_A and k = "''model''"
        and x = "[(''depth'', VInt 2)]" and y = "[(''lr'', VInt 3)]"]
      merge_right_biased [OF d, where A = tree_A and k = "''tags''"
        and u = "VList [VInt 1]" and v = "VList [VInt 2]"]
      d
    by (simp add: tree_A_def tree_B_def)
qed

section \<open>Arguments and the configuration's \<^verbatim>\<open>args\<close> entry\<close>

lemma insert_kw_set: "set (insert_kw p qs) = insert p (set qs)"
  by (induction qs) auto

lemma insert_kw_distinct:
  "distinct (map fst qs) \<Longrightarrow> fst p \<notin> fst ` set qs \<Longrightarrow> distinct (map fst (insert_kw p qs))"
  by (induction qs) (auto simp: insert_kw_set)

lemma get_kwargs_set: "set (get_kwargs ns) = set ns"
  by (induction ns) (auto simp: get_kwargs_def insert_kw_set)

lemma get_kwargs_distinct: "distinct (map fst ns) \<Longrightarrow> distinct (map fst (get_kwargs ns))"
proof (induction ns)
  case Nil
  then show ?case by (simp add: get_kwargs_def)
next
  case (Cons p ns)
  have s: "set (foldr insert_kw ns []) = set ns"
    using get_kwargs_set [of ns] by (simp add: get_kwargs_def)
  from Cons show ?case
    by (simp add: get_kwargs_def insert_kw_distinct s)
qed

lemma get_kwargs_lookup:
  "distinct (map fst ns) \<Longrightarrow> map_of (get_kwargs ns) = map_of ns"
  by (rule map_of_inject_set [THEN iffD2])
     (simp_all add: get_kwargs_distinct get_kwargs_set)

lemma args_into_config_lookup:
  assumes "distinct (map fst kw)"
    and "args_into_config kw (VDict d) = Inr (VDict d')"
  shows "dict_get d' k
           = (case map_of kw k of
                None \<Rightarrow> dict_get d k
              | Some val \<Rightarrow>
                  if val \<noteq> VNone \<and> \<not> (k \<in> set [''logdir'', ''baselogdir''] \<and> val = VStr [])
                  then Some val else dict_get d k)"
  using assms
proof (induction kw arbitrary: d)
  case Nil
  then show ?case by simp
next
  case (Cons e kw)
  obtain key val where e: "e = (key, val)" by (cases e)
  from Cons.prems e have n: "map_of kw key = None"
    by (simp add: map_of_eq_None_iff)
  from Cons.prems have dk: "distinct (map fst kw)" by simp
  show ?case
  proof (cases "val \<noteq> VNone \<and> \<not> (key \<in> set [''logdir'', ''baselogdir''] \<and> val = VStr [])")
    case True
    with Cons.prems e
    have r: "args_into_config kw (VDict (dict_set key val d)) = Inr (VDict d')" by auto
    from Cons.IH [OF dk r] e n True show ?thesis
      by (auto simp: dict_get_dict_set split: option.splits)
  next
    case False
    with Cons.prems e
    have r: "args_into_config kw (VDict d) = Inr (VDict d')" by auto
    from Cons.IH [OF dk r] e n False show ?thesis
      by (auto split: option.splits)
  qed
qed

lemma args_into_config_keys:
  "args_into_config kw (VDict d) = Inr (VDict d') \<Longrightarrow> distinct (keys d) \<Longrightarrow> distinct (keys d')"
proof (induction kw arbitrary: d)
  case Nil
  then show ?case by simp
next
  case (Cons e kw)
  obtain key val where e: "e = (key, val)" by (cases e)
  show ?case
  proof (cases "val \<noteq> VNone \<and> \<not> (key \<in> set [''logdir'', ''baselogdir''] \<and> val = VStr [])")
    case True
    with Cons.prems e
    have r: "args_into_config kw (VDict (dict_set key val d)) = Inr (VDict d')" by auto
    from Cons.IH [OF r] Cons.prems(2) show ?thesis by (simp add: distinct_dict_set)
  next
    case False
    with Cons.prems e
    have r: "args_into_config kw (VDict d) = Inr (VDict d')" by auto
    from Cons.IH [OF r] Cons.prems(2) show ?thesis by simp
  qed
qed

lemma getattr_setattr:
  "getattr (setattr h a k v) a k' = (if k' = k then Some v else getattr h a k')"
  by (simp add: getattr_def setattr_def dict_get_dict_set)

lemma merge_back_lookup:
  assumes "distinct (map fst entries)"
  shows "getattr (merge_back entries a h) a k
           = (case map_of entries k of
                None \<Rightarrow> getattr h a k
              | Some v \<Rightarrow>
                  Some (if (case getattr h a k of None \<Rightarrow> VNone | Some x \<Rightarrow> x) = VNone
                           \<or> (k \<in> set [''logdir'', ''baselogdir'']
                               \<and> (case getattr h a k of None \<Rightarrow> VNone | Some x \<Rightarrow> x) = VStr [])
                        then v
                        else (case getattr h a k of None \<Rightarrow> VNone | Some x \<Rightarrow> x)))"
  using assms
proof (induction entries arbitrary: h)
  case Nil
  then show ?case by simp
next
  case (Cons e entries)
  obtain key val where e: "e = (key, val)" by (cases e)
  from Cons.prems e have n: "map_of entries key = None"
    by (simp add: map_of_eq_None_iff)
  from Cons.prems have dk: "distinct (map fst entries)" by simp
  show ?case
  proof (cases "k = key")
    case True
    show ?thesis
      unfolding e merge_back.simps Let_def Cons.IH [OF dk]
      using True n by (auto simp: getattr_setattr)
  next
    case False
    have s: "getattr (setattr h a key x) a k = getattr h a k" for x
      using False by (simp add: getattr_setattr)
    show ?thesis
      unfolding e merge_back.simps Let_def Cons.IH [OF dk] s
      using False by simp
  qed
qed


lemma parse_config_args_no_tokens:
  assumes "dict_get config ''args'' = Some (VDict config_args)"
    and "args_into_config (get_kwargs (objs h a)) (VDict config_args) = Inr (VDict merged)"
  shows "parse_config_args ev config a [] h = (Inr (dict_set ''args'' (VDict merged) config), h)"
  using assms by (simp add: parse_config_args_def)

text \<open>
  Claim C5. The files give a tree whose \<^verbatim>\<open>args\<close> entry declares a value \<open>v\<close> for \<open>key\<close>,
  and the command line left \<open>key\<close> as the empty string. With no override tokens,
  \<^verbatim>\<open>parse_args_uargs\<close> returns, and on the record it returns \<open>key\<close> is \<open>v\<close> when \<open>key\<close> is
  \<^verbatim>\<open>logdir\<close> or \<^verbatim>\<open>baselogdir\<close>; for any other name the empty string of the command line
  stays. Keys of a dictionary and attributes of a record are distinct.
\<close>

theorem empty_logdir_counts_as_unset:
  assumes "getattr h args ''configs'' = Some (VList paths)"
    and "load_configs fs json_load yaml_load paths [] = Inr config"
    and "dict_get config ''args'' = Some (VDict config_args)"
    and "distinct (keys config_args)"
    and "distinct (keys (objs h args))"
    and "dict_get config_args key = Some v"
    and "getattr h args key = Some (VStr [])"
  shows "\<exists>args' config'.
           fst (parse_args_uargs fs json_load yaml_load ev args [] h) = Inr (args', config')
           \<and> getattr (snd (parse_args_uargs fs json_load yaml_load ev args [] h)) args' key
               = Some (if key \<in> set [''logdir'', ''baselogdir''] then v else VStr [])"
proof -
  let ?h1 = "h\<lparr>objs := (objs h)(fresh h := objs h args), fresh := Suc (fresh h)\<rparr>"
  let ?a = "fresh h"
  have d: "deepcopy h args = (?a, ?h1)" by (simp add: deepcopy_def)
  have o: "objs ?h1 ?a = objs h args" by simp
  have g: "getattr ?h1 ?a k = getattr h args k" for k by (simp add: getattr_def)
  have dk: "distinct (map fst (get_kwargs (objs h args)))"
    using assms(5) by (simp add: get_kwargs_distinct keys_def)
  obtain merged where
    m: "args_into_config (get_kwargs (objs h args)) (VDict config_args) = Inr (VDict merged)"
    using args_into_config_dict by blast
  have kw: "map_of (get_kwargs (objs h args)) key = Some (VStr [])"
    using assms(5,7) by (simp add: get_kwargs_lookup keys_def getattr_def dict_get_map_of)
  have ml: "dict_get merged key
              = Some (if key \<in> set [''logdir'', ''baselogdir''] then v else VStr [])"
    using args_into_config_lookup [OF dk m, of key] kw assms(6) by simp
  have md: "distinct (map fst merged)"
    using args_into_config_keys [OF m assms(4)] by (simp add: keys_def)
  have p: "parse_config_args ev config ?a [] ?h1
             = (Inr (dict_set ''args'' (VDict merged) config), ?h1)"
    using parse_config_args_no_tokens [of config config_args ?h1 ?a merged ev] assms(3) m o
    by simp
  have r: "parse_args_uargs fs json_load yaml_load ev args [] h
             = (Inr (?a, dict_set ''args'' (VDict merged) config), merge_back merged ?a ?h1)"
    unfolding parse_args_uargs_def d
    using assms(1,2) p by (simp add: g iterate_def dict_get_dict_set)
  have "getattr (merge_back merged ?a ?h1) ?a key
          = Some (if key \<in> set [''logdir'', ''baselogdir''] then v else VStr [])"
    unfolding merge_back_lookup [OF md]
    using ml assms(7) by (simp add: g dict_get_map_of)
  with r show ?thesis by simp
qed


theorem empty_logdir_counts_as_unset_witness:
  "getattr (store_of cli_args) 0 ''configs'' = Some (VList [VStr ''exp.json''])
   \<and> load_configs files_table json_table yaml_table [VStr ''exp.json''] []
       = Inr [(''args'', VDict [(''logdir'', VStr ''/from/config'')])]
   \<and> dict_get [(''args'', VDict [(''logdir'', VStr ''/from/config'')])] ''args''
       = Some (VDict [(''logdir'', VStr ''/from/config'')])
   \<and> distinct (keys [(''logdir'', VStr ''/from/config'')])
   \<and> distinct (keys (objs (store_of cli_args) 0))
   \<and> dict_get [(''logdir'', VStr ''/from/config'')] ''logdir'' = Some (VStr ''/from/config'')
   \<and> getattr (store_of cli_args) 0 ''logdir'' = Some (VStr [])
   \<and> getattr (snd (parse_args_uargs files_table json_table yaml_table eval_table 0 []
                      (store_of cli_args))) 1 ''logdir''
       = Some (VStr ''/from/config'')"
proof -
  have a1: "getattr (store_of cli_args) 0 ''configs'' = Some (VList [VStr ''exp.json''])"
    by (simp add: getattr_def store_of_def cli_args_def)
  have a2: "load_configs files_table json_table yaml_table [VStr ''exp.json''] []
       = Inr [(''args'', VDict [(''logdir'', VStr ''/from/config'')])]"
    by code_simp
  have a3: "dict_get [(''args'', VDict [(''logdir'', VStr ''/from/config'')])] ''args''
       = Some (VDict [(''logdir'', VStr ''/from/config'')])"
    by simp
  have a4: "distinct (keys [(''logdir'', VStr ''/from/config'')])"
    by (simp add: keys_def)
  have a5: "distinct (keys (objs (store_of cli_args) 0))"
    by (simp add: keys_def store_of_def cli_args_def)
  have a6: "dict_get [(''logdir'', VStr ''/from/config'')] ''logdir'' = Some (VStr ''/from/config'')"
    by simp
  have a7: "getattr (store_of cli_args) 0 ''logdir'' = Some (VStr [])"
    by (simp add: getattr_def store_of_def cli_args_def)
  have r: "fst (parse_args_uargs files_table json_table yaml_table eval_table 0 []
                      (store_of cli_args))
           = Inr (1, [(''args'', VDict [(''logdir'', VStr ''/from/config''),
                                        (''configs'', VList [VStr ''exp.json''])])])"
    by code_simp
  from empty_logdir_counts_as_unset [OF a1 a2 a3 a4 a5 a6 a7, of eval_table] r
  have "getattr (snd (parse_args_uargs files_table json_table yaml_table eval_table 0 []
                      (store_of cli_args))) 1 ''logdir''
       = Some (VStr ''/from/config'')"
    by auto
  with a1 a2 a3 a4 a5 a6 a7 show ?thesis by blast
qed

section \<open>The dump\<close>

lemma mkdirs_keeps:
  "mkdirs anc passed todo d = Inr d' \<Longrightarrow>
     files d' = files d \<and> refused d' = refused d \<and> summary d' = summary d"
  by (induction todo arbitrary: passed d) (auto split: if_splits)

lemma mkdirs_is_dir:
  "mkdirs anc passed todo d = Inr d' \<Longrightarrow>
     is_dir d' q = (is_dir d q \<or> (anchor q = anc
                      \<and> (\<exists>n. 0 < n \<and> n \<le> length todo \<and> parts q = passed @ take n todo)))"
proof (induction todo arbitrary: passed d)
  case Nil
  then show ?case by simp
next
  case (Cons c todo)
  let ?p = "\<lparr>anchor = anc, parts = passed @ [c]\<rparr>"
  have shift: "(\<exists>n. 0 < n \<and> n \<le> length (c # todo) \<and> parts q = passed @ take n (c # todo))
        = (parts q = passed @ [c]
           \<or> (\<exists>n. 0 < n \<and> n \<le> length todo \<and> parts q = (passed @ [c]) @ take n todo))"
  proof
    assume "\<exists>n. 0 < n \<and> n \<le> length (c # todo) \<and> parts q = passed @ take n (c # todo)"
    then obtain n where n: "0 < n" "n \<le> length (c # todo)" "parts q = passed @ take n (c # todo)"
      by blast
    then obtain m where m: "n = Suc m" by (cases n) auto
    show "parts q = passed @ [c]
           \<or> (\<exists>n. 0 < n \<and> n \<le> length todo \<and> parts q = (passed @ [c]) @ take n todo)"
    proof (cases m)
      case 0
      with n m show ?thesis by simp
    next
      case (Suc k)
      with n m have "0 < m \<and> m \<le> length todo \<and> parts q = (passed @ [c]) @ take m todo"
        by simp
      then show ?thesis by blast
    qed
  next
    assume "parts q = passed @ [c]
           \<or> (\<exists>n. 0 < n \<and> n \<le> length todo \<and> parts q = (passed @ [c]) @ take n todo)"
    then show "\<exists>n. 0 < n \<and> n \<le> length (c # todo) \<and> parts q = passed @ take n (c # todo)"
    proof
      assume "parts q = passed @ [c]"
      then have "0 < Suc 0 \<and> Suc 0 \<le> length (c # todo) \<and> parts q = passed @ take (Suc 0) (c # todo)"
        by simp
      then show ?thesis by blast
    next
      assume "\<exists>n. 0 < n \<and> n \<le> length todo \<and> parts q = (passed @ [c]) @ take n todo"
      then obtain n where "0 < n" "n \<le> length todo" "parts q = (passed @ [c]) @ take n todo"
        by blast
      then have "0 < Suc n \<and> Suc n \<le> length (c # todo) \<and> parts q = passed @ take (Suc n) (c # todo)"
        by simp
      then show ?thesis by blast
    qed
  qed
  have eq: "(q = ?p) = (anchor q = anc \<and> parts q = passed @ [c])"
    by (cases q) auto
  show ?case
  proof (cases "is_dir d ?p")
    case True
    with Cons.prems have r: "mkdirs anc (passed @ [c]) todo d = Inr d'"
      by (simp split: if_splits)
    from Cons.IH [OF r] True eq show ?thesis
      unfolding shift by auto
  next
    case False
    with Cons.prems
    have r: "mkdirs anc (passed @ [c]) todo (d\<lparr>is_dir := (is_dir d)(?p := True)\<rparr>) = Inr d'"
      by (simp split: if_splits)
    from Cons.IH [OF r] eq show ?thesis
      unfolding shift by auto
  qed
qed

lemma mkdirs_succeeds:
  "(\<forall>n. 0 < n \<and> n \<le> length todo \<longrightarrow>
        files d \<lparr>anchor = anc, parts = passed @ take n todo\<rparr> = None
        \<and> (is_dir d \<lparr>anchor = anc, parts = passed @ take n todo\<rparr>
            \<or> \<not> refused d \<lparr>anchor = anc, parts = passed @ take n todo\<rparr>))
   \<Longrightarrow> \<exists>d'. mkdirs anc passed todo d = Inr d'"
proof (induction todo arbitrary: passed d)
  case Nil
  then show ?case by simp
next
  case (Cons c todo)
  let ?p = "\<lparr>anchor = anc, parts = passed @ [c]\<rparr>"
  from Cons.prems [rule_format, of "Suc 0"]
  have here: "files d ?p = None \<and> (is_dir d ?p \<or> \<not> refused d ?p)" by simp
  have rest: "files d \<lparr>anchor = anc, parts = (passed @ [c]) @ take n todo\<rparr> = None
        \<and> (is_dir d \<lparr>anchor = anc, parts = (passed @ [c]) @ take n todo\<rparr>
            \<or> \<not> refused d \<lparr>anchor = anc, parts = (passed @ [c]) @ take n todo\<rparr>)"
    if "0 < n \<and> n \<le> length todo" for n
    using Cons.prems [rule_format, of "Suc n"] that by simp
  show ?case
  proof (cases "is_dir d ?p")
    case True
    from Cons.IH [of d "passed @ [c]"] rest obtain d' where
      "mkdirs anc (passed @ [c]) todo d = Inr d'" by blast
    with True here show ?thesis by simp
  next
    case False
    let ?d = "d\<lparr>is_dir := (is_dir d)(?p := True)\<rparr>"
    have "\<forall>n. 0 < n \<and> n \<le> length todo \<longrightarrow>
        files ?d \<lparr>anchor = anc, parts = (passed @ [c]) @ take n todo\<rparr> = None
        \<and> (is_dir ?d \<lparr>anchor = anc, parts = (passed @ [c]) @ take n todo\<rparr>
            \<or> \<not> refused ?d \<lparr>anchor = anc, parts = (passed @ [c]) @ take n todo\<rparr>)"
      using rest by auto
    from Cons.IH [OF this] obtain d' where
      "mkdirs anc (passed @ [c]) todo ?d = Inr d'" by blast
    with False here show ?thesis by simp
  qed
qed


lemma length_strftime: "length (strftime t) = 15"
  by (simp add: strftime_def two_digits_def)

lemma snapshot_creation_time:
  assumes "get_environment_vars hst = Inr environment"
  shows "dict_get environment ''creation_time'' = Some (VStr (strftime (localtime hst)))"
proof (cases "git_block (check_output hst)")
  case (Inl e)
  with assms show ?thesis by (simp add: get_environment_vars_def)
next
  case (Inr g)
  show ?thesis
  proof (cases g)
    case None
    with Inr assms show ?thesis
      by (auto simp: get_environment_vars_def decode_dict_def)
  next
    case (Some git)
    with Inr assms show ?thesis
      by (auto simp: get_environment_vars_def decode_dict_def)
  qed
qed

lemma snapshot_when_git_runs:
  assumes "\<And>cmd. check_output hst cmd \<noteq> NoSuchProgram"
  shows "\<exists>environment. get_environment_vars hst = Inr environment"
proof -
  have "\<exists>g. git_block (check_output hst) = Inr g"
    using assms
    by (auto simp: git_block_def Let_def split: proc.splits)
  then obtain g where g: "git_block (check_output hst) = Inr g" by blast
  show ?thesis
    by (cases g) (simp_all add: get_environment_vars_def g Let_def)
qed

lemma joinpath_name:
  "CHR ''/'' \<notin> set name \<Longrightarrow> name \<noteq> [] \<Longrightarrow> name \<noteq> ''.'' \<Longrightarrow>
     joinpath p name = \<lparr>anchor = anchor p, parts = parts p @ [name]\<rparr>"
  by (cases name) (auto simp: joinpath_def pure_path_def split_on_absent)

lemma write_in_directory:
  assumes "is_dir d dir" and "files d dir = None"
    and "\<not> is_dir d \<lparr>anchor = anchor dir, parts = parts dir @ [name]\<rparr>"
    and "\<not> refused d \<lparr>anchor = anchor dir, parts = parts dir @ [name]\<rparr>"
  shows "write_file \<lparr>anchor = anchor dir, parts = parts dir @ [name]\<rparr> txt d
           = Inr (d\<lparr>files := (files d)(\<lparr>anchor = anchor dir, parts = parts dir @ [name]\<rparr>
                                         := Some txt)\<rparr>)"
proof -
  have p: "parent \<lparr>anchor = anchor dir, parts = parts dir @ [name]\<rparr> = dir"
    by (simp add: parent_def)
  show ?thesis
    using assms by (simp add: write_file_def dir_exists_def p)
qed

text \<open>
  The scenario of claim C9 where the snapshot can be taken. For any configuration and any
  target directory \<open>D\<close>, with no source files to copy: no regular file stands on the way to
  \<^verbatim>\<open>D/configs\<close> and the system refuses none of the directories missing there, it lets the
  two documents be written, and the serialisers (external to the module) accept them and
  the reader gives them back. Then \<^verbatim>\<open>dump_config\<close> returns, \<^verbatim>\<open>D/configs\<close> is a directory
  whether or not it was one before, \<^verbatim>\<open>_config.json\<close> there holds a text that reads back as
  the configuration, and \<^verbatim>\<open>_environment.json\<close> a text that reads back as a document whose
  \<^verbatim>\<open>creation_time\<close> is a string that is not empty.
\<close>

lemma dump_when_snapshot_taken:
  assumes cd: "cd = joinpath (pure_path D) ''configs''"
    and way: "\<forall>n. 0 < n \<and> n \<le> length (parts cd) \<longrightarrow>
               files d \<lparr>anchor = anchor cd, parts = take n (parts cd)\<rparr> = None
               \<and> (is_dir d \<lparr>anchor = anchor cd, parts = take n (parts cd)\<rparr>
                   \<or> \<not> refused d \<lparr>anchor = anchor cd, parts = take n (parts cd)\<rparr>)"
    and f1: "\<not> is_dir d (joinpath cd ''_config.json'')"
            "\<not> refused d (joinpath cd ''_config.json'')"
    and f2: "\<not> is_dir d (joinpath cd ''_environment.json'')"
            "\<not> refused d (joinpath cd ''_environment.json'')"
    and nopaths: "str_paths configs_path = []"
    and snap: "get_environment_vars hst = Inr environment"
    and s1: "ser (VDict experiment_config) = Inr config_text"
            "deser config_text = Some (VDict experiment_config)"
    and s2: "ser (VDict environment) = Inr environment_text"
            "deser environment_text = Some (VDict environment)"
    and s3: "dumps (VDict experiment_config) = Inr config_str"
            "dumps (VDict environment) = Inr environment_str"
  shows "fst (dump_config ser dumps hst experiment_config D configs_path d) = Inr ()
       \<and> is_dir (snd (dump_config ser dumps hst experiment_config D configs_path d)) cd
       \<and> (\<exists>t. files (snd (dump_config ser dumps hst experiment_config D configs_path d))
                  (joinpath cd ''_config.json'') = Some t
              \<and> deser t = Some (VDict experiment_config))
       \<and> (\<exists>t env s. files (snd (dump_config ser dumps hst experiment_config D configs_path d))
                  (joinpath cd ''_environment.json'') = Some t
              \<and> deser t = Some (VDict env)
              \<and> dict_get env ''creation_time'' = Some (VStr s) \<and> s \<noteq> [])"
proof -
  let ?p1 = "\<lparr>anchor = anchor cd, parts = parts cd @ [''_config.json'']\<rparr>"
  let ?p2 = "\<lparr>anchor = anchor cd, parts = parts cd @ [''_environment.json'']\<rparr>"
  have j1: "joinpath cd ''_config.json'' = ?p1" by (rule joinpath_name) simp_all
  have j2: "joinpath cd ''_environment.json'' = ?p2" by (rule joinpath_name) simp_all
  have cdp: "cd = \<lparr>anchor = anchor (pure_path D), parts = parts (pure_path D) @ [''configs'']\<rparr>"
    unfolding cd by (rule joinpath_name) simp_all
  then have ne: "parts cd \<noteq> []" by (cases cd) auto
  have whole: "\<lparr>anchor = anchor cd, parts = take (length (parts cd)) (parts cd)\<rparr> = cd"
    by simp
  from mkdirs_succeeds [of "parts cd" d "anchor cd" "[]"] way
  obtain d1 where m: "mkdirs (anchor cd) [] (parts cd) d = Inr d1" by auto
  have k: "files d1 = files d" "refused d1 = refused d" "summary d1 = summary d"
    using mkdirs_keeps [OF m] by simp_all
  have dir: "is_dir d1 q = (is_dir d q \<or> (anchor q = anchor cd
                      \<and> (\<exists>n. 0 < n \<and> n \<le> length (parts cd) \<and> parts q = take n (parts cd))))"
    for q
    using mkdirs_is_dir [OF m, of q] by simp
  have dcd: "is_dir d1 cd"
    unfolding dir [of cd] using ne
    by (intro disjI2 conjI exI [of _ "length (parts cd)"]) auto
  have fcd: "files d1 cd = None"
  proof -
    have "files d \<lparr>anchor = anchor cd, parts = take (length (parts cd)) (parts cd)\<rparr> = None"
      using way [rule_format, of "length (parts cd)"] ne by simp
    then show ?thesis unfolding whole k .
  qed
  have longer: "parts cd @ [x] \<noteq> take n (parts cd)" for x n
  proof
    assume "parts cd @ [x] = take n (parts cd)"
    then have "length (parts cd @ [x]) = length (take n (parts cd))" by simp
    then show False by simp
  qed
  have nd1: "\<not> is_dir d1 ?p1" using f1(1) longer unfolding j1 dir [of ?p1] by simp
  have nd2: "\<not> is_dir d1 ?p2" using f2(1) longer unfolding j2 dir [of ?p2] by simp
  let ?d2 = "d1\<lparr>files := (files d1)(?p1 := Some config_text)\<rparr>"
  let ?d3 = "?d2\<lparr>files := (files ?d2)(?p2 := Some environment_text)\<rparr>"
  have w1: "write_file ?p1 config_text d1 = Inr ?d2"
    using write_in_directory [of d1 cd "''_config.json''" config_text] dcd fcd nd1 f1(2) k
    unfolding j1 by simp
  have cd_ne_p1: "cd \<noteq> ?p1" by (cases cd) auto
  have w2: "write_file ?p2 environment_text ?d2 = Inr ?d3"
    using write_in_directory [of ?d2 cd "''_environment.json''" environment_text]
      dcd fcd nd2 f2(2) k cd_ne_p1
    unfolding j2 by simp
  let ?d5 = "?d3\<lparr>summary := summary ?d3 @
               [(cd, ''config'', double_newlines config_str, 0),
                (cd, ''environment'', double_newlines environment_str, 0)]\<rparr>"
  have r: "dump_config ser dumps hst experiment_config D configs_path d = (Inr (), ?d5)"
    using m w1 w2 nopaths snap s1(1) s2(1) s3
    by (simp add: dump_config_def mkdir_def save_def Let_def cd [symmetric] j1 j2)
  have c: "dict_get environment ''creation_time'' = Some (VStr (strftime (localtime hst)))"
    using snapshot_creation_time [OF snap] .
  have n: "strftime (localtime hst) \<noteq> []"
    using length_strftime [of "localtime hst"] by auto
  have g1: "files ?d5 ?p1 = Some config_text" by simp
  have g2: "files ?d5 ?p2 = Some environment_text" by simp
  have g3: "is_dir ?d5 cd" using dcd by simp
  show ?thesis
    unfolding r j1 j2
    using g1 g2 g3 c n s1(2) s2(2) by auto
qed

lemma dump_in_checkout:
  "fst (dump_config save_table save_table (host_with git_table) [(''a'', VInt 1)] ''runs'' None
          disk_with_dir)
     = Inr ()
   \<and> files (snd (dump_config save_table save_table (host_with git_table) [(''a'', VInt 1)]
                    ''runs'' None disk_with_dir)) (joinpath runs_configs ''_config.json'')
     = Some ''{\"a\": 1}''
   \<and> read_table ''{\"a\": 1}'' = Some (VDict [(''a'', VInt 1)])"
  by code_simp

text \<open>
  Claim C9 at the input it fails on: the claim's configuration and a target directory on
  an empty disk, on a host with no \<^verbatim>\<open>git\<close> program. Line 127 creates \<^verbatim>\<open>runs/configs\<close>, line
  129 raises the \<^verbatim>\<open>FileNotFoundError\<close> that \<^verbatim>\<open>get_environment_vars\<close> lets escape, and lines
  131 and 132 are not reached: neither document is written.
\<close>

theorem dump_fails_without_git:
  "fst (dump_config save_table save_table (host_with git_missing) [(''a'', VInt 1)] ''runs'' None
          empty_disk)
     = Inl FileNotFoundError
   \<and> is_dir (snd (dump_config save_table save_table (host_with git_missing) [(''a'', VInt 1)]
                     ''runs'' None empty_disk)) runs_configs
   \<and> files (snd (dump_config save_table save_table (host_with git_missing) [(''a'', VInt 1)]
                    ''runs'' None empty_disk)) (joinpath runs_configs ''_config.json'')
     = None
   \<and> files (snd (dump_config save_table save_table (host_with git_missing) [(''a'', VInt 1)]
                    ''runs'' None empty_disk)) (joinpath runs_configs ''_environment.json'')
     = None"
  by code_simp

end
